theory Spec2Isabelle
  imports Complex_Main "HOL-Library.Word" "HOL-Library.AList"
begin

section \<open>JavaScript values used by the payment tracker\<close>

text \<open>
  A JavaScript string is a sequence of UTF-16 code units. The payment generator tests its
  input against Chinese literals, so strings are modelled as lists of 16-bit words and the
  literals are written by their code units. \<open>ascii\<close> embeds an ASCII literal.

  JavaScript numbers are IEEE doubles. The model computes amounts in exact rational
  arithmetic: it says what the source's arithmetic expressions denote, not how a double
  rounds them.
\<close>

type_synonym jsstring = "16 word list"

definition ascii :: "string \<Rightarrow> jsstring" where
  "ascii s = map (\<lambda>c. of_nat (of_char c)) s"

text \<open>The literals of \<open>paymentGenerator.js\<close>: U+5B9A U+91D1 (deposit), U+5C3E U+6B3E (final
  payment), U+5168 U+6B3E (full payment), U+5176 U+4ED6 (the supplier type "other").\<close>

definition lit_deposit :: jsstring where
  "lit_deposit = [0x5B9A, 0x91D1]"

definition lit_final :: jsstring where
  "lit_final = [0x5C3E, 0x6B3E]"

definition lit_full :: jsstring where
  "lit_full = [0x5168, 0x6B3E]"

definition lit_other :: jsstring where
  "lit_other = [0x5176, 0x4ED6]"

definition percent :: "16 word" where
  "percent = 0x25"

definition comma :: "16 word" where
  "comma = 0x2C"

text \<open>The three descriptions. The first two are template literals around the captured digits:
  U+9884 U+4ED8 digits \<open>%\<close> U+6B3E U+9879, and U+652F U+4ED8 U+5269 U+4F59 digits \<open>%\<close>
  U+6B3E U+9879. The third is the fixed literal U+4E00 U+6B21 U+6027 U+652F U+4ED8 U+5168
  U+6B3E.\<close>

definition deposit_description :: "jsstring \<Rightarrow> jsstring" where
  "deposit_description ds = [0x9884, 0x4ED8] @ ds @ [percent, 0x6B3E, 0x9879]"

definition final_description :: "jsstring \<Rightarrow> jsstring" where
  "final_description ds = [0x652F, 0x4ED8, 0x5269, 0x4F59] @ ds @ [percent, 0x6B3E, 0x9879]"

definition full_description :: jsstring where
  "full_description = [0x4E00, 0x6B21, 0x6027, 0x652F, 0x4ED8, 0x5168, 0x6B3E]"

subsection \<open>String.prototype.includes, match, split, trim and parseInt\<close>

fun starts_with :: "jsstring \<Rightarrow> jsstring \<Rightarrow> bool" where
  "starts_with s [] = True"
| "starts_with [] (p # ps) = False"
| "starts_with (c # cs) (p # ps) = (c = p \<and> starts_with cs ps)"

text \<open>\<open>s.includes(pat)\<close>: \<open>pat\<close> occurs in \<open>s\<close> at some position.\<close>

fun str_includes :: "jsstring \<Rightarrow> jsstring \<Rightarrow> bool" where
  "str_includes [] pat = (pat = [])"
| "str_includes (c # cs) pat = (starts_with (c # cs) pat \<or> str_includes cs pat)"

text \<open>\<open>\d\<close> without the unicode flag is \<open>[0-9]\<close>.\<close>

definition is_digit :: "16 word \<Rightarrow> bool" where
  "is_digit c = (0x30 \<le> c \<and> c \<le> 0x39)"

text \<open>
  The two regular expressions of the source are a marker, \<open>(\d+)\<close> and \<open>%\<close>.
  \<open>match_here marker s\<close> matches the expression at the start of \<open>s\<close> and returns the capture
  group. The group is greedy; giving back digits cannot help, because the character after a
  shorter run is a digit and not \<open>%\<close>, so the longest run of digits is the only candidate.
  \<open>match_percent\<close> is \<open>s.match(re)\<close>: the leftmost position where the expression matches;
  \<open>None\<close> is the \<open>null\<close> of a failed match and \<open>Some ds\<close> stands for the match array, of
  which the source reads element 1 only.
\<close>

definition match_here :: "jsstring \<Rightarrow> jsstring \<Rightarrow> jsstring option" where
  "match_here marker s =
     (if starts_with s marker then
        (let rest = drop (length marker) s;
             ds = takeWhile is_digit rest in
         if ds \<noteq> [] \<and> starts_with (dropWhile is_digit rest) [percent] then Some ds else None)
      else None)"

fun match_percent :: "jsstring \<Rightarrow> jsstring \<Rightarrow> jsstring option" where
  "match_percent marker [] = match_here marker []"
| "match_percent marker (c # cs) =
     (case match_here marker (c # cs) of
        Some ds \<Rightarrow> Some ds
      | None \<Rightarrow> match_percent marker cs)"

text \<open>\<open>parseInt\<close> is only applied to a capture group, a non-empty run of decimal digits, where
  it returns the number the digits denote.\<close>

definition digit_value :: "16 word \<Rightarrow> nat" where
  "digit_value c = unat c - 48"

definition parseInt :: "jsstring \<Rightarrow> nat" where
  "parseInt ds = foldl (\<lambda>n c. 10 * n + digit_value c) 0 ds"

text \<open>\<open>s.split(',')\<close>: the pieces between commas, empty pieces included; never empty.\<close>

fun split_comma :: "jsstring \<Rightarrow> jsstring list" where
  "split_comma [] = [[]]"
| "split_comma (c # cs) =
     (if c = comma then [] # split_comma cs
      else (case split_comma cs of
              [] \<Rightarrow> [[c]]
            | w # ws \<Rightarrow> (c # w) # ws))"

text \<open>\<open>s.trim()\<close> removes the white space and line terminators of ECMAScript at both ends.\<close>

definition is_space :: "16 word \<Rightarrow> bool" where
  "is_space c = (c \<in> {0x09, 0x0A, 0x0B, 0x0C, 0x0D, 0x20, 0xA0, 0x1680, 0x2028, 0x2029,
                      0x202F, 0x205F, 0x3000, 0xFEFF} \<or> (0x2000 \<le> c \<and> c \<le> 0x200A))"

definition trim :: "jsstring \<Rightarrow> jsstring" where
  "trim s = rev (dropWhile is_space (rev (dropWhile is_space s)))"

text \<open>A number in a template literal; the source only prints non-negative integers there
  (clock readings and array indices).\<close>

function show_nat :: "nat \<Rightarrow> jsstring" where
  "show_nat n = (if n < 10 then [of_nat (48 + n)]
                 else show_nat (n div 10) @ [of_nat (48 + n mod 10)])"
  by pat_completeness auto
termination
  by (relation "measure id") auto

declare show_nat.simps [simp del]

subsection \<open>The host: Date\<close>

text \<open>
  \<open>Date\<close> is the host's. A date object holds a time value, the milliseconds since
  1970-01-01T00:00Z, or NaN. The model takes from the host what the source uses:
  \<^item> \<open>Date_parse h s\<close> is the time value of \<open>new Date(s)\<close>; \<open>None\<close> is NaN, an Invalid
    Date. Which strings parse, beyond the ISO format, is implementation-defined, so the
    parser is a parameter.
  \<^item> \<open>Date_iso h d\<close> is the text \<open>YYYY-MM-DD\<close> of the day number \<open>d\<close>, counted from
    1970-01-01: what \<open>toISOString().split('T')[0]\<close> prints for a time value on that day.
  \<^item> \<open>Date_now h k\<close> is the reading, in milliseconds, of the \<open>k\<close>-th look at the clock
    (\<open>Date.now()\<close> or \<open>new Date()\<close>) since the page was loaded.
  \<^item> \<open>LocalTZA h\<close> is the offset of local time from UTC, in milliseconds. The model takes
    it to be fixed: a host without daylight saving time, as China Standard Time is.
\<close>

record host =
  Date_parse :: "jsstring \<Rightarrow> int option"
  Date_iso :: "int \<Rightarrow> jsstring"
  Date_now :: "nat \<Rightarrow> nat"
  LocalTZA :: int

datatype error = RangeError

type_synonym jsdate = "int option"

text \<open>The abstract operations of ECMAScript on time values.\<close>

definition msPerDay :: int where
  "msPerDay = 86400000"

definition Day :: "int \<Rightarrow> int" where
  "Day t = t div msPerDay"

definition TimeWithinDay :: "int \<Rightarrow> int" where
  "TimeWithinDay t = t mod msPerDay"

definition MakeDate :: "int \<Rightarrow> int \<Rightarrow> int" where
  "MakeDate day time = day * msPerDay + time"

definition LocalTime :: "host \<Rightarrow> int \<Rightarrow> int" where
  "LocalTime h t = t + LocalTZA h"

definition UTC :: "host \<Rightarrow> int \<Rightarrow> int" where
  "UTC h t = t - LocalTZA h"

text \<open>
  \<open>d.setDate(d.getDate() - n)\<close>. With \<open>t\<close> the local time of \<open>d\<close>, \<open>getDate\<close> is the day of
  the month of \<open>t\<close>, and \<open>setDate(dt)\<close> sets the time value to
  \<open>UTC(MakeDate(MakeDay(year of t, month of t, dt), TimeWithinDay(t)))\<close>. \<open>MakeDay\<close> counts
  \<open>dt - 1\<close> days on from the first day of the month, also backwards, so for the day of the
  month less \<open>n\<close> it is the day number of \<open>t\<close> less \<open>n\<close>. An Invalid Date stays invalid.
  The model leaves out \<open>TimeClip\<close>: dates stay within the range of time values, which
  reaches some 270000 years to either side of 1970.
\<close>

definition minus_days :: "host \<Rightarrow> jsdate \<Rightarrow> int \<Rightarrow> jsdate" where
  "minus_days h d n =
     map_option (\<lambda>tv. let t = LocalTime h tv
                      in UTC h (MakeDate (Day t - n) (TimeWithinDay t))) d"

text \<open>\<open>d.toISOString().split('T')[0]\<close>: the UTC day of the time value; \<open>toISOString\<close> throws
  a RangeError on an Invalid Date.\<close>

definition toISODate :: "host \<Rightarrow> jsdate \<Rightarrow> error + jsstring" where
  "toISODate h d = (case d of None \<Rightarrow> Inl RangeError | Some tv \<Rightarrow> Inr (Date_iso h (Day tv)))"

section \<open>paymentGenerator.js\<close>

subsection \<open>calculatePaymentTasks\<close>

text \<open>What \<open>calculatePaymentTasks\<close> returns: a task without identifier and status. The
  third parameter, \<open>dueDate\<close> in the source, is primed here: the name is a field's too.\<close>

record ptask =
  taskType :: jsstring
  description :: jsstring
  amountDue :: rat
  dueDate :: jsstring

definition calculatePaymentTasks :: "host \<Rightarrow> jsstring \<Rightarrow> rat \<Rightarrow> jsstring \<Rightarrow> error + ptask list" where
  "calculatePaymentTasks h paymentMethod totalAmount dueDate' =
     (let baseDate = Date_parse h dueDate' in
      if str_includes paymentMethod lit_deposit \<and> str_includes paymentMethod lit_final then
        (case (match_percent lit_deposit paymentMethod, match_percent lit_final paymentMethod) of
           (Some depositMatch, Some finalMatch) \<Rightarrow>
             (let depositPercent = of_nat (parseInt depositMatch) / 100;
                  finalPercent = of_nat (parseInt finalMatch) / 100 in
              case toISODate h (minus_days h baseDate 7) of
                Inl e \<Rightarrow> Inl e
              | Inr depositDate \<Rightarrow>
                  (case toISODate h (minus_days h baseDate 1) of
                     Inl e \<Rightarrow> Inl e
                   | Inr finalDate \<Rightarrow>
                       Inr [\<lparr>taskType = lit_deposit,
                             description = deposit_description depositMatch,
                             amountDue = totalAmount * depositPercent,
                             dueDate = depositDate\<rparr>,
                            \<lparr>taskType = lit_final,
                             description = final_description finalMatch,
                             amountDue = totalAmount * finalPercent,
                             dueDate = finalDate\<rparr>]))
         | _ \<Rightarrow> Inr [])
      else if str_includes paymentMethod lit_full then
        (case toISODate h (minus_days h baseDate 3) of
           Inl e \<Rightarrow> Inl e
         | Inr fullPaymentDate \<Rightarrow>
             Inr [\<lparr>taskType = lit_full,
                   description = full_description,
                   amountDue = totalAmount,
                   dueDate = fullPaymentDate\<rparr>])
      else Inr [])"

subsection \<open>The records of the catalogue\<close>

text \<open>
  Orders, products and suppliers are objects with Chinese keys; the model reads these:
  \<^item> of an order, \<open>o_id\<close> (the key U+8BA2 U+5355 ID), \<open>o_name\<close> (U+8BA2 U+5355 U+540D U+79F0),
    \<open>o_departure\<close> (U+51FA U+53D1 U+65E5 U+671F) and \<open>o_services\<close> (U+5173 U+8054 U+7684
    U+670D U+52A1), the comma-separated service names;
  \<^item> of a product, \<open>p_service\<close> (U+670D U+52A1 U+540D U+79F0), \<open>p_supplier\<close> (U+4F9B U+5E94
    U+5546 U+540D U+79F0), \<open>p_price\<close> (U+5E73 U+65E5 U+5355 U+4EF7) and \<open>p_method\<close>
    (U+4ED8 U+6B3E U+65B9 U+5F0F);
  \<^item> of a supplier, \<open>s_name\<close> (U+4F9B U+5E94 U+5546 U+540D U+79F0) and \<open>s_type\<close> (U+4F9B
    U+5E94 U+5546 U+7C7B U+578B).
\<close>

record order =
  o_id :: jsstring
  o_name :: jsstring
  o_departure :: jsstring
  o_services :: jsstring

record product =
  p_service :: jsstring
  p_supplier :: jsstring
  p_price :: rat
  p_method :: jsstring

record supplier =
  s_name :: jsstring
  s_type :: jsstring

text \<open>A payment task of a booking: the generated task with identifier and status. A
  \<open>null\<close> field is \<open>None\<close>.\<close>

record task = ptask +
  taskId :: jsstring
  paymentStatus :: jsstring
  actualPaymentDate :: "jsstring option"
  invoiceLink :: "jsstring option"

record costItem =
  itemName :: jsstring
  amount :: rat
  invoiceSource :: jsstring

text \<open>A booking. \<open>addTask\<close> creates bookings without \<open>costItems\<close> and \<open>totalAmount\<close>; an
  absent property is \<open>None\<close>.\<close>

record booking =
  bookingId :: jsstring
  supplierName :: jsstring
  supplierType :: jsstring
  relatedCustomerOrder :: jsstring
  bookingStatus :: jsstring
  costItems :: "costItem list option"
  totalAmount :: "rat option"
  paymentTasks :: "task list"

text \<open>The payload a generated or manually entered task starts from.\<close>

definition new_task :: "jsstring \<Rightarrow> ptask \<Rightarrow> task" where
  "new_task tid t =
     \<lparr>taskType = taskType t, description = description t, amountDue = amountDue t,
      dueDate = dueDate t, taskId = tid, paymentStatus = ascii ''Pending'',
      actualPaymentDate = None, invoiceLink = None\<rparr>"

subsection \<open>The three lookups\<close>

definition findOrderById :: "jsstring \<Rightarrow> order list \<Rightarrow> order option" where
  "findOrderById orderId allOrders = find (\<lambda>order. o_id order = orderId) allOrders"

definition findProductByName :: "jsstring \<Rightarrow> product list \<Rightarrow> product option" where
  "findProductByName serviceName allProducts =
     find (\<lambda>product. p_service product = trim serviceName) allProducts"

definition findSupplierByName :: "jsstring \<Rightarrow> supplier list \<Rightarrow> supplier option" where
  "findSupplierByName supplierName' allSuppliers =
     find (\<lambda>supplier. s_name supplier = supplierName') allSuppliers"

subsection \<open>convertToBookingsFormat\<close>

text \<open>
  The inner \<open>tasks.forEach\<close>: each task gets the identifier
  \<open>TASK-${Date.now()}-${index}-${taskIndex}\<close>. Every identifier looks at the clock, so the
  loops pass on \<open>k\<close>, the number of looks so far.
\<close>

fun stamp_tasks :: "host \<Rightarrow> nat \<Rightarrow> nat \<Rightarrow> nat \<Rightarrow> ptask list \<Rightarrow> task list \<times> nat" where
  "stamp_tasks h k index taskIndex [] = ([], k)"
| "stamp_tasks h k index taskIndex (t # ts) =
     (let tid = ascii ''TASK-'' @ show_nat (Date_now h k) @ ascii ''-'' @ show_nat index
                @ ascii ''-'' @ show_nat taskIndex
      in case stamp_tasks h (Suc k) index (Suc taskIndex) ts of
           (rest, k') \<Rightarrow> (new_task tid t # rest, k'))"

text \<open>\<open>data.items.forEach((product, index) => ...)\<close>: each product is expanded with its own
  payment method and its own price; an exception of the expander ends the call.\<close>

fun items_tasks :: "host \<Rightarrow> jsstring \<Rightarrow> nat \<Rightarrow> nat \<Rightarrow> product list \<Rightarrow> error + task list \<times> nat" where
  "items_tasks h departure k index [] = Inr ([], k)"
| "items_tasks h departure k index (product # rest) =
     (case calculatePaymentTasks h (p_method product) (p_price product) departure of
        Inl e \<Rightarrow> Inl e
      | Inr tasks \<Rightarrow>
          (case stamp_tasks h k index 0 tasks of
             (stamped, k1) \<Rightarrow>
               (case items_tasks h departure k1 (Suc index) rest of
                  Inl e \<Rightarrow> Inl e
                | Inr (others, k2) \<Rightarrow> Inr (stamped @ others, k2))))"

text \<open>The baskets: \<open>supplierCosts\<close> is an object used as a dictionary from supplier names to
  \<open>{total, items}\<close>. It is modelled by an association list in insertion order, which is the
  order of \<open>Object.entries\<close> for keys that are ordinary names (not array indices, which
  JavaScript lists first, and not names of \<open>Object.prototype\<close>, which a lookup would find
  in the empty object).\<close>

record basket =
  total :: rat
  items :: "product list"

fun convert_entries ::
  "host \<Rightarrow> nat \<Rightarrow> order \<Rightarrow> supplier list \<Rightarrow> (jsstring \<times> basket) list \<Rightarrow> error + booking list \<times> nat" where
  "convert_entries h k orderInfo allSuppliers [] = Inr ([], k)"
| "convert_entries h k orderInfo allSuppliers ((supplierName', data) # rest) =
     (let supplierType' = (case findSupplierByName supplierName' allSuppliers of
                             Some supplier \<Rightarrow> s_type supplier
                           | None \<Rightarrow> lit_other)
      in case items_tasks h (o_departure orderInfo) k 0 (items data) of
           Inl e \<Rightarrow> Inl e
         | Inr (allPaymentTasks, k1) \<Rightarrow>
             (let booking =
                \<lparr>bookingId = ascii ''BOOK-'' @ show_nat (Date_now h k1) @ ascii ''-'' @ supplierName',
                 supplierName = supplierName',
                 supplierType = supplierType',
                 relatedCustomerOrder = o_name orderInfo,
                 bookingStatus = ascii ''InProgress'',
                 costItems = Some (map (\<lambda>item. \<lparr>itemName = p_service item,
                                                  amount = p_price item,
                                                  invoiceSource = supplierName'\<rparr>) (items data)),
                 totalAmount = Some (total data),
                 paymentTasks = allPaymentTasks\<rparr>
              in case convert_entries h (Suc k1) orderInfo allSuppliers rest of
                   Inl e \<Rightarrow> Inl e
                 | Inr (bookings', k2) \<Rightarrow> Inr (booking # bookings', k2)))"

definition convertToBookingsFormat ::
  "host \<Rightarrow> nat \<Rightarrow> (jsstring \<times> basket) list \<Rightarrow> order \<Rightarrow> supplier list \<Rightarrow> error + booking list \<times> nat" where
  "convertToBookingsFormat h k supplierCosts orderInfo allSuppliers =
     convert_entries h k orderInfo allSuppliers supplierCosts"

subsection \<open>generatePaymentBookings\<close>

text \<open>One round of the loop over the service names, for a product that was found: the
  supplier's basket is created when the supplier is seen first, then the price is added and
  the product appended.\<close>

definition add_cost :: "(jsstring \<times> basket) list \<Rightarrow> product \<Rightarrow> (jsstring \<times> basket) list" where
  "add_cost supplierCosts product =
     (let supplierName' = p_supplier product;
          cost = p_price product;
          b = (case map_of supplierCosts supplierName' of
                 None \<Rightarrow> \<lparr>total = 0, items = []\<rparr>
               | Some b \<Rightarrow> b)
      in AList.update supplierName' \<lparr>total = total b + cost, items = items b @ [product]\<rparr>
           supplierCosts)"

text \<open>The loop; a name without product is reported on the console and skipped.\<close>

fun collect_costs ::
  "product list \<Rightarrow> (jsstring \<times> basket) list \<Rightarrow> jsstring list \<Rightarrow> (jsstring \<times> basket) list" where
  "collect_costs allProducts supplierCosts [] = supplierCosts"
| "collect_costs allProducts supplierCosts (name # names) =
     (case findProductByName name allProducts of
        None \<Rightarrow> collect_costs allProducts supplierCosts names
      | Some product \<Rightarrow> collect_costs allProducts (add_cost supplierCosts product) names)"

text \<open>The result is the bookings and the number of looks at the clock after the call; an
  unknown order is reported on the console and gives no booking.\<close>

definition generatePaymentBookings ::
  "host \<Rightarrow> nat \<Rightarrow> jsstring \<Rightarrow> order list \<Rightarrow> product list \<Rightarrow> supplier list \<Rightarrow> error + booking list \<times> nat" where
  "generatePaymentBookings h k orderId allOrders allProducts allSuppliers =
     (case findOrderById orderId allOrders of
        None \<Rightarrow> Inr ([], k)
      | Some currentOrder \<Rightarrow>
          (let serviceNames = split_comma (o_services currentOrder);
               supplierCosts = collect_costs allProducts [] serviceNames
           in convertToBookingsFormat h k supplierCosts currentOrder allSuppliers))"

section \<open>App.vue: the store of bookings and the task operations\<close>

text \<open>The reactive \<open>bookings\<close> array, together with \<open>ticks\<close>, the number of looks at the clock
  so far, by which each operation gets the readings that follow those of the operations
  before it.\<close>

record store =
  bookings :: "booking list"
  ticks :: nat

text \<open>A scan that changes the first element it accepts and stops (\<open>find\<close> and an
  assignment to the object found, or a \<open>for\<close> loop left by \<open>break\<close>); \<open>None\<close> when no element
  is accepted.\<close>

fun update_first :: "('a \<Rightarrow> 'a option) \<Rightarrow> 'a list \<Rightarrow> 'a list option" where
  "update_first f [] = None"
| "update_first f (x # xs) =
     (case f x of
        Some y \<Rightarrow> Some (y # xs)
      | None \<Rightarrow> map_option ((#) x) (update_first f xs))"

text \<open>The loop \<open>markAsPaid\<close> and \<open>addInvoiceLink\<close> share: in the first booking that has a
  task with the identifier, the first such task is changed by \<open>f\<close>.\<close>

definition update_task :: "jsstring \<Rightarrow> (task \<Rightarrow> task) \<Rightarrow> booking list \<Rightarrow> booking list option" where
  "update_task taskId' f bs =
     update_first
       (\<lambda>booking.
          map_option (\<lambda>ts. booking\<lparr>paymentTasks := ts\<rparr>)
            (update_first (\<lambda>t. if taskId t = taskId' then Some (f t) else None)
               (paymentTasks booking)))
       bs"

text \<open>\<open>new Date().toISOString().split('T')[0]\<close>: the UTC day of the clock's reading.\<close>

definition today :: "host \<Rightarrow> nat \<Rightarrow> jsstring" where
  "today h k = Date_iso h (Day (int (Date_now h k)))"

definition markAsPaid :: "host \<Rightarrow> jsstring \<Rightarrow> store \<Rightarrow> store" where
  "markAsPaid h taskId' st =
     (case update_task taskId'
             (\<lambda>t. t\<lparr>paymentStatus := ascii ''Paid'',
                    actualPaymentDate := Some (today h (ticks st))\<rparr>)
             (bookings st) of
        None \<Rightarrow> st
      | Some bs \<Rightarrow> \<lparr>bookings = bs, ticks = Suc (ticks st)\<rparr>)"

text \<open>\<open>link\<close> is what \<open>prompt\<close> returned: \<open>None\<close> for \<open>null\<close> (the dialog was cancelled).\<close>

definition addInvoiceLink :: "jsstring option \<Rightarrow> jsstring \<Rightarrow> store \<Rightarrow> store" where
  "addInvoiceLink link taskId' st =
     (case link of
        None \<Rightarrow> st
      | Some l \<Rightarrow>
          if l = [] then st
          else (case update_task taskId' (\<lambda>t. t\<lparr>invoiceLink := Some l\<rparr>) (bookings st) of
                  None \<Rightarrow> st
                | Some bs \<Rightarrow> st\<lparr>bookings := bs\<rparr>))"

text \<open>What the form emits with \<open>add-task\<close>. The amount is a number there (see
  \<open>handleSubmit\<close>).\<close>

record taskData =
  td_supplierName :: jsstring
  td_supplierType :: jsstring
  td_relatedCustomerOrder :: jsstring
  td_description :: jsstring
  td_amountDue :: rat
  td_dueDate :: jsstring
  td_taskType :: jsstring

text \<open>\<open>booking.paymentTasks.push(newTask)\<close> on the booking that \<open>find\<close> returned, the first
  one of the supplier.\<close>

fun push_task :: "jsstring \<Rightarrow> task \<Rightarrow> booking list \<Rightarrow> booking list" where
  "push_task name t [] = []"
| "push_task name t (b # bs) =
     (if supplierName b = name then b\<lparr>paymentTasks := paymentTasks b @ [t]\<rparr> # bs
      else b # push_task name t bs)"

definition addTask :: "host \<Rightarrow> taskData \<Rightarrow> store \<Rightarrow> store" where
  "addTask h taskData st =
     (case (case find (\<lambda>b. supplierName b = td_supplierName taskData) (bookings st) of
              Some booking \<Rightarrow> (bookings st, ticks st)
            | None \<Rightarrow>
                (bookings st @
                   [\<lparr>bookingId = ascii ''BOOK-'' @ show_nat (Date_now h (ticks st)),
                     supplierName = td_supplierName taskData,
                     supplierType = td_supplierType taskData,
                     relatedCustomerOrder = td_relatedCustomerOrder taskData,
                     bookingStatus = ascii ''InProgress'',
                     costItems = None,
                     totalAmount = None,
                     paymentTasks = []\<rparr>],
                 Suc (ticks st))) of
        (bs, k) \<Rightarrow>
          (let newTask =
                 new_task (ascii ''TASK-'' @ show_nat (Date_now h k))
                   \<lparr>taskType = td_taskType taskData,
                    description = td_description taskData,
                    amountDue = td_amountDue taskData,
                    dueDate = td_dueDate taskData\<rparr>
           in \<lparr>bookings = push_task (td_supplierName taskData) newTask bs, ticks = Suc k\<rparr>))"

text \<open>\<open>handleSmartGenerate\<close>: the generated bookings are appended to the store; an exception
  of the generator leaves the handler.\<close>

definition handleSmartGenerate ::
  "host \<Rightarrow> jsstring \<Rightarrow> order list \<Rightarrow> product list \<Rightarrow> supplier list \<Rightarrow> store \<Rightarrow> error + store" where
  "handleSmartGenerate h selectedOrderId orders products suppliers st =
     (if selectedOrderId = [] then Inr st
      else (case generatePaymentBookings h (ticks st) selectedOrderId orders products suppliers of
              Inl e \<Rightarrow> Inl e
            | Inr (newBookings, k) \<Rightarrow> Inr \<lparr>bookings = bookings st @ newBookings, ticks = k\<rparr>))"

text \<open>All tasks of the store, booking after booking.\<close>

definition all_tasks :: "booking list \<Rightarrow> task list" where
  "all_tasks bs = concat (map paymentTasks bs)"

section \<open>NewTaskForm.vue\<close>

text \<open>The form's state. \<open>amountDue\<close> starts as \<open>null\<close> and is a number once the user has typed
  one (\<open>v-model.number\<close>); \<open>None\<close> stands for \<open>null\<close> and for the empty field.\<close>

record newTask =
  nt_supplierName :: jsstring
  nt_supplierType :: jsstring
  nt_relatedCustomerOrder :: jsstring
  nt_description :: jsstring
  nt_amountDue :: "rat option"
  nt_dueDate :: jsstring
  nt_taskType :: jsstring

text \<open>The alert "fill in all required fields" (U+8BF7 U+586B U+5199 U+6240 U+6709 U+5FC5 U+586B
  U+9879 U+FF01).\<close>

datatype alert = FillRequiredFields

text \<open>\<open>handleSubmit\<close>: \<open>Inl\<close> is the alert and the return without event, \<open>Inr\<close> the payload of
  the \<open>add-task\<close> event. \<open>!x\<close> holds of the empty string, of \<open>null\<close> and of the number 0.\<close>

definition handleSubmit :: "newTask \<Rightarrow> alert + taskData" where
  "handleSubmit f =
     (case nt_amountDue f of
        None \<Rightarrow> Inl FillRequiredFields
      | Some a \<Rightarrow>
          if nt_supplierName f = [] \<or> a = 0 \<or> nt_dueDate f = [] then Inl FillRequiredFields
          else Inr \<lparr>td_supplierName = nt_supplierName f,
                    td_supplierType = nt_supplierType f,
                    td_relatedCustomerOrder = nt_relatedCustomerOrder f,
                    td_description = nt_description f,
                    td_amountDue = a,
                    td_dueDate = nt_dueDate f,
                    td_taskType = nt_taskType f\<rparr>)"

text \<open>\<open>App.vue\<close> binds the event to \<open>addTask\<close>: what submitting the form does to the store,
  with the alert shown, if any.\<close>

definition submit_form :: "host \<Rightarrow> newTask \<Rightarrow> store \<Rightarrow> alert option \<times> store" where
  "submit_form h f st =
     (case handleSubmit f of
        Inl a \<Rightarrow> (Some a, st)
      | Inr taskData \<Rightarrow> (None, addTask h taskData st))"

section \<open>Sample data\<close>

text \<open>A host for the examples, eight hours east of Greenwich: it parses the date of the
  sample order (to midnight UTC, as for a date-only ISO string), prints the days the examples
  reach, and reads the clock as told.\<close>

definition example_host :: "(nat \<Rightarrow> nat) \<Rightarrow> host" where
  "example_host clock =
     \<lparr>Date_parse = map_of [(ascii ''2025-11-10'', 1762732800000)],
      Date_iso = (\<lambda>d. case map_of [(20395, ascii ''2025-11-03''), (20399, ascii ''2025-11-07''),
                                      (20401, ascii ''2025-11-09''), (20402, ascii ''2025-11-10''),
                                      (20403, ascii ''2025-11-11'')] d of
                         Some s \<Rightarrow> s
                       | None \<Rightarrow> []),
      Date_now = clock,
      LocalTZA = 28800000\<rparr>"

text \<open>Two payment methods: a 30/70 split and a 25/25 split.\<close>

definition split_30_70 :: jsstring where
  "split_30_70 = lit_deposit @ ascii ''30%+'' @ lit_final @ ascii ''70%''"

definition split_25_25 :: jsstring where
  "split_25_25 = lit_deposit @ ascii ''25%+'' @ lit_final @ ascii ''25%''"

text \<open>A store of two bookings with two tasks each; the identifier \<open>T2\<close> occurs in both.\<close>

definition example_task :: "jsstring \<Rightarrow> task" where
  "example_task tid =
     new_task tid \<lparr>taskType = lit_full, description = full_description, amountDue = 500,
                   dueDate = ascii ''2025-11-07''\<rparr>"

definition example_booking :: "jsstring \<Rightarrow> task list \<Rightarrow> booking" where
  "example_booking name ts =
     \<lparr>bookingId = ascii ''BOOK-1-'' @ name, supplierName = name, supplierType = lit_other,
      relatedCustomerOrder = ascii ''Tour'', bookingStatus = ascii ''InProgress'',
      costItems = None, totalAmount = None, paymentTasks = ts\<rparr>"

definition example_store :: store where
  "example_store =
     \<lparr>bookings = [example_booking (ascii ''Acme'') [example_task (ascii ''T1''), example_task (ascii ''T2'')],
                  example_booking (ascii ''Bolt'') [example_task (ascii ''T2''), example_task (ascii ''T3'')]],
      ticks = 0\<rparr>"

text \<open>A clock that is looked at once a day, first at the start of 2025-11-10 (UTC).\<close>

definition daily_clock :: "nat \<Rightarrow> nat" where
  "daily_clock k = 1762732800000 + 86400000 * k"

text \<open>The catalogue of the examples: the order \<open>O1\<close> of two services of one supplier, the
  order \<open>O2\<close> of services of two suppliers, and \<open>O3\<close>, which is \<open>O1\<close> with a service name in
  between that no product has. The supplier \<open>Bolt\<close> is not in the directory.\<close>

definition example_products :: "product list" where
  "example_products =
     [\<lparr>p_service = ascii ''SvcA'', p_supplier = ascii ''Acme'', p_price = 1000,
       p_method = split_30_70\<rparr>,
      \<lparr>p_service = ascii ''SvcB'', p_supplier = ascii ''Acme'', p_price = 500,
       p_method = lit_full\<rparr>,
      \<lparr>p_service = ascii ''SvcC'', p_supplier = ascii ''Bolt'', p_price = 200,
       p_method = lit_full\<rparr>]"

definition example_suppliers :: "supplier list" where
  "example_suppliers = [\<lparr>s_name = ascii ''Acme'', s_type = ascii ''Hotel''\<rparr>]"

definition example_order :: "string \<Rightarrow> string \<Rightarrow> order" where
  "example_order key services =
     \<lparr>o_id = ascii key, o_name = ascii ''Tour'', o_departure = ascii ''2025-11-10'',
      o_services = ascii services\<rparr>"

definition example_orders :: "order list" where
  "example_orders =
     [example_order ''O1'' ''SvcA,SvcB'', example_order ''O2'' ''SvcB,SvcC'',
      example_order ''O3'' ''SvcA,Ghost,SvcB'']"

text \<open>A clock that shows the same millisecond at every look, as within one call.\<close>

definition still_clock :: "nat \<Rightarrow> nat" where
  "still_clock k = 1762732800000"

text \<open>The form filled in but for the description.\<close>

definition example_form :: newTask where
  "example_form =
     \<lparr>nt_supplierName = ascii ''Acme'', nt_supplierType = ascii ''Hotel'',
      nt_relatedCustomerOrder = ascii ''Tour'', nt_description = [],
      nt_amountDue = Some 100, nt_dueDate = ascii ''2025-11-20'', nt_taskType = lit_deposit\<rparr>"

section \<open>The payment-term expander\<close>

lemmas string_defs = ascii_def lit_deposit_def lit_final_def lit_full_def lit_other_def
  percent_def comma_def is_digit_def match_here_def parseInt_def digit_value_def
  split_30_70_def split_25_25_def

lemmas date_defs = msPerDay_def Day_def TimeWithinDay_def MakeDate_def LocalTime_def UTC_def

lemmas expander_defs = calculatePaymentTasks_def toISODate_def minus_days_def Let_def date_defs

subsection \<open>What the regular expressions match\<close>

lemma starts_with_append: "starts_with s m \<Longrightarrow> s = m @ drop (length m) s"
  by (induction s m rule: starts_with.induct) auto

lemma starts_with_self: "starts_with (m @ s) m"
  by (induction m) auto




lemma match_here_shape:
  assumes "match_here m s = Some ds"
  shows "\<exists>post. s = m @ ds @ percent # post \<and> ds \<noteq> [] \<and> list_all is_digit ds"
proof -
  let ?rest = "drop (length m) s"
  from assms have sw: "starts_with s m" and ds: "ds = takeWhile is_digit ?rest" "ds \<noteq> []"
    and pc: "starts_with (dropWhile is_digit ?rest) [percent]"
    by (auto simp: match_here_def Let_def split: if_splits)
  from pc obtain post where "dropWhile is_digit ?rest = percent # post"
    by (cases "dropWhile is_digit ?rest") auto
  then have "?rest = ds @ percent # post"
    using ds(1) takeWhile_dropWhile_id[of is_digit ?rest] by simp
  moreover have "list_all is_digit ds"
    unfolding ds(1) list_all_iff by (auto dest: set_takeWhileD)
  ultimately show ?thesis
    using starts_with_append[OF sw] ds(2) by metis
qed

text \<open>A match returns a non-empty run of digits that stands in the string between the marker
  and a percent sign.\<close>

lemma match_percent_shape:
  "match_percent m s = Some ds \<Longrightarrow>
     \<exists>pre post. s = pre @ m @ ds @ percent # post \<and> ds \<noteq> [] \<and> list_all is_digit ds"
proof (induction s)
  case Nil
  then show ?case
    using match_here_shape[of m "[]" ds] by auto
next
  case (Cons c cs)
  show ?case
  proof (cases "match_here m (c # cs)")
    case None
    with Cons.prems have "match_percent m cs = Some ds"
      by simp
    from Cons.IH[OF this] obtain pre post where
      "cs = pre @ m @ ds @ percent # post" "ds \<noteq> []" "list_all is_digit ds"
      by blast
    then have "c # cs = (c # pre) @ m @ ds @ percent # post"
      by simp
    with \<open>ds \<noteq> []\<close> \<open>list_all is_digit ds\<close> show ?thesis
      by blast
  next
    case (Some a)
    with Cons.prems have "match_here m (c # cs) = Some ds"
      by simp
    from match_here_shape[OF this] show ?thesis
      by (metis append_Nil)
  qed
qed

lemma percent_not_digit: "\<not> is_digit percent"
  by (simp add: is_digit_def percent_def)

lemma match_here_complete:
  assumes "ds \<noteq> []" "list_all is_digit ds"
  shows "match_here m (m @ ds @ percent # post) = Some ds"
proof -
  have "takeWhile is_digit (ds @ percent # post) = ds"
    using assms(2) percent_not_digit by (simp add: list_all_iff takeWhile_tail)
  moreover have "dropWhile is_digit (ds @ percent # post) = percent # post"
    using assms(2) percent_not_digit by (simp add: list_all_iff dropWhile_append3)
  ultimately show ?thesis
    using assms(1) by (simp add: match_here_def starts_with_self)
qed

text \<open>Conversely, a string with a marker, digits and a percent sign somewhere has a match.\<close>

lemma match_percent_complete:
  assumes "ds \<noteq> []" "list_all is_digit ds"
  shows "match_percent m (pre @ m @ ds @ percent # post) \<noteq> None"
proof (induction pre)
  case Nil
  show ?case
  proof (cases "m @ ds @ percent # post")
    case Nil
    then show ?thesis
      by simp
  next
    case (Cons c cs)
    then show ?thesis
      using match_here_complete[OF assms, of m post]
      by (simp del: match_percent.simps add: match_percent.simps(2))
  qed
next
  case (Cons c pre)
  then show ?case
    by (simp split: option.splits)
qed

subsection \<open>Moving a date back\<close>



subsection \<open>The split pattern\<close>







subsection \<open>The full-payment pattern\<close>



subsection \<open>All outcomes of the expander\<close>




section \<open>The task operations\<close>

lemmas sample_defs = example_host_def example_task_def example_booking_def example_store_def
  daily_clock_def still_clock_def new_task_def example_products_def example_suppliers_def
  example_order_def example_orders_def example_form_def

subsection \<open>The scan for the first task with an identifier\<close>

lemma update_first_None: "update_first f xs = None \<longleftrightarrow> (\<forall>x\<in>set xs. f x = None)"
  by (induction xs) (auto split: option.splits)

lemma update_first_hit:
  "\<forall>u\<in>set pre. f u = None \<Longrightarrow> f x = Some y \<Longrightarrow>
     update_first f (pre @ x # post) = Some (pre @ y # post)"
  by (induction pre) auto

lemma update_first_length: "update_first f xs = Some ys \<Longrightarrow> length ys = length xs"
  by (induction xs arbitrary: ys) (auto split: option.splits)

lemma split_before_hit:
  "xs @ ys = pre @ t # post \<Longrightarrow> \<forall>u\<in>set xs. \<not> P u \<Longrightarrow> P t \<Longrightarrow>
     \<exists>pre'. pre = xs @ pre' \<and> ys = pre' @ t # post"
proof (induction xs arbitrary: pre)
  case Nil
  then show ?case by simp
next
  case (Cons x xs)
  then obtain pre0 where "pre = x # pre0"
    by (cases pre) auto
  with Cons show ?case by auto
qed

lemma split_at_hit:
  "xs @ ys = pre @ t # post \<Longrightarrow> \<forall>u\<in>set pre. \<not> P u \<Longrightarrow> \<exists>u\<in>set xs. P u \<Longrightarrow>
     \<exists>post'. xs = pre @ t # post' \<and> post = post' @ ys"
proof (induction xs arbitrary: pre)
  case Nil
  then show ?case by simp
next
  case (Cons x xs)
  show ?case
  proof (cases pre)
    case Nil
    with Cons.prems show ?thesis by simp
  next
    case (Cons p pre0)
    with Cons.prems have "x = p" "xs @ ys = pre0 @ t # post" "\<forall>u\<in>set pre0. \<not> P u" "\<not> P x"
      by auto
    moreover with Cons.prems have "\<exists>u\<in>set xs. P u" by auto
    ultimately show ?thesis using Cons.IH[of pre0] Cons by auto
  qed
qed

lemma update_task_None:
  "update_task tid g bs = None \<longleftrightarrow> (\<forall>t\<in>set (all_tasks bs). taskId t \<noteq> tid)"
  by (auto simp: update_task_def all_tasks_def update_first_None split: if_splits)

lemma update_task_hit:
  "all_tasks bs = pre @ t # post \<Longrightarrow> \<forall>u\<in>set pre. taskId u \<noteq> tid \<Longrightarrow> taskId t = tid \<Longrightarrow>
     \<exists>bs'. update_task tid g bs = Some bs' \<and> all_tasks bs' = pre @ g t # post"
proof (induction bs arbitrary: pre)
  case Nil
  then show ?case by (simp add: all_tasks_def)
next
  case (Cons b bs)
  let ?f = "\<lambda>t. if taskId t = tid then Some (g t) else None"
  from Cons.prems(1) have eq: "paymentTasks b @ all_tasks bs = pre @ t # post"
    by (simp add: all_tasks_def)
  show ?case
  proof (cases "\<exists>u\<in>set (paymentTasks b). taskId u = tid")
    case True
    from split_at_hit[OF eq, of "\<lambda>u. taskId u = tid"] Cons.prems(2) True
    obtain post' where b: "paymentTasks b = pre @ t # post'" and p: "post = post' @ all_tasks bs"
      by auto
    have "update_first ?f (paymentTasks b) = Some (pre @ g t # post')"
      unfolding b using Cons.prems(2,3) by (intro update_first_hit) auto
    then show ?thesis
      using p by (simp add: update_task_def all_tasks_def)
  next
    case False
    from split_before_hit[OF eq, of "\<lambda>u. taskId u = tid"] False Cons.prems(3)
    obtain pre' where pre: "pre = paymentTasks b @ pre'" and r: "all_tasks bs = pre' @ t # post"
      by auto
    from Cons.IH[OF r] Cons.prems(2,3) pre obtain bs' where
      "update_task tid g bs = Some bs'" "all_tasks bs' = pre' @ g t # post"
      by auto
    moreover from False have "update_first ?f (paymentTasks b) = None"
      by (simp add: update_first_None)
    ultimately show ?thesis
      using pre by (auto simp add: update_task_def all_tasks_def)
  qed
qed

lemma update_task_frame:
  "update_task tid g bs = Some bs' \<Longrightarrow>
     map (\<lambda>b. b\<lparr>paymentTasks := []\<rparr>) bs' = map (\<lambda>b. b\<lparr>paymentTasks := []\<rparr>) bs
     \<and> map (length \<circ> paymentTasks) bs' = map (length \<circ> paymentTasks) bs"
proof (induction bs arbitrary: bs')
  case Nil
  then show ?case by (simp add: update_task_def)
next
  case (Cons b bs)
  then show ?case
    by (auto simp add: update_task_def update_first_length split: option.splits)
qed


lemma markAsPaid_hit:
  assumes "all_tasks (bookings st) = pre @ t # post" "\<forall>u\<in>set pre. taskId u \<noteq> tid" "taskId t = tid"
  shows "\<exists>bs'. markAsPaid h tid st = \<lparr>bookings = bs', ticks = Suc (ticks st)\<rparr>
           \<and> all_tasks bs' = pre @ t\<lparr>paymentStatus := ascii ''Paid'',
                                     actualPaymentDate := Some (today h (ticks st))\<rparr> # post"
  using update_task_hit[OF assms, of "\<lambda>t. t\<lparr>paymentStatus := ascii ''Paid'',
                    actualPaymentDate := Some (today h (ticks st))\<rparr>"]
  by (auto simp add: markAsPaid_def)

subsection \<open>Marking a task as paid\<close>

text \<open>
  C7. When no task of the store has the identifier, \<open>markAsPaid\<close> returns the store as it was.
  Otherwise the first task with the identifier, in the order of the bookings and of their
  tasks, gets the status \<open>Paid\<close> and, as its payment date, the day the clock shows when the
  operation runs (whatever the task's due date); every other task stays. The operation is a
  total function: it raises nothing. Marking the same task once more stamps the day of the
  second run, which is a later reading of the clock: the operation is not idempotent.
\<close>

theorem markAsPaid_first_match:
  "((\<forall>t\<in>set (all_tasks (bookings st)). taskId t \<noteq> tid) \<longrightarrow> markAsPaid h tid st = st)
   \<and> (all_tasks (bookings st) = pre @ t # post \<and> (\<forall>u\<in>set pre. taskId u \<noteq> tid) \<and> taskId t = tid \<longrightarrow>
        all_tasks (bookings (markAsPaid h tid st))
          = pre @ t\<lparr>paymentStatus := ascii ''Paid'',
                    actualPaymentDate := Some (today h (ticks st))\<rparr> # post
      \<and> all_tasks (bookings (markAsPaid h tid (markAsPaid h tid st)))
          = pre @ t\<lparr>paymentStatus := ascii ''Paid'',
                    actualPaymentDate := Some (today h (Suc (ticks st)))\<rparr> # post)"
proof (intro conjI impI)
  assume "\<forall>t\<in>set (all_tasks (bookings st)). taskId t \<noteq> tid"
  then have "update_task tid g (bookings st) = None" for g
    by (simp add: update_task_None)
  then show "markAsPaid h tid st = st"
    by (simp add: markAsPaid_def)
next
  assume a: "all_tasks (bookings st) = pre @ t # post \<and> (\<forall>u\<in>set pre. taskId u \<noteq> tid) \<and> taskId t = tid"
  let ?t1 = "t\<lparr>paymentStatus := ascii ''Paid'', actualPaymentDate := Some (today h (ticks st))\<rparr>"
  from a markAsPaid_hit[of st pre t post tid h] obtain bs1 where
    m1: "markAsPaid h tid st = \<lparr>bookings = bs1, ticks = Suc (ticks st)\<rparr>"
    and t1: "all_tasks bs1 = pre @ ?t1 # post"
    by auto
  from m1 t1 show first: "all_tasks (bookings (markAsPaid h tid st)) = pre @ ?t1 # post"
    by simp
  from a have "taskId ?t1 = tid" by simp
  with a t1 markAsPaid_hit[of "\<lparr>bookings = bs1, ticks = Suc (ticks st)\<rparr>" pre ?t1 post tid h]
  obtain bs2 where
    "markAsPaid h tid \<lparr>bookings = bs1, ticks = Suc (ticks st)\<rparr> = \<lparr>bookings = bs2, ticks = Suc (Suc (ticks st))\<rparr>"
    "all_tasks bs2 = pre @ ?t1\<lparr>paymentStatus := ascii ''Paid'',
                    actualPaymentDate := Some (today h (Suc (ticks st)))\<rparr> # post"
    by auto
  with m1 show "all_tasks (bookings (markAsPaid h tid (markAsPaid h tid st)))
          = pre @ t\<lparr>paymentStatus := ascii ''Paid'',
                    actualPaymentDate := Some (today h (Suc (ticks st)))\<rparr> # post"
    by simp
qed

theorem markAsPaid_first_match_witness:
  "markAsPaid (example_host daily_clock) (ascii ''T9'') example_store = example_store
   \<and> all_tasks (bookings (markAsPaid (example_host daily_clock) (ascii ''T2'') example_store))
       = [example_task (ascii ''T1''),
          (example_task (ascii ''T2''))\<lparr>paymentStatus := ascii ''Paid'',
             actualPaymentDate := Some (ascii ''2025-11-10'')\<rparr>,
          example_task (ascii ''T2''), example_task (ascii ''T3'')]
   \<and> all_tasks (bookings (markAsPaid (example_host daily_clock) (ascii ''T2'')
                  (markAsPaid (example_host daily_clock) (ascii ''T2'') example_store)))
       = [example_task (ascii ''T1''),
          (example_task (ascii ''T2''))\<lparr>paymentStatus := ascii ''Paid'',
             actualPaymentDate := Some (ascii ''2025-11-11'')\<rparr>,
          example_task (ascii ''T2''), example_task (ascii ''T3'')]"
  using markAsPaid_first_match[where st = example_store and tid = "ascii ''T9''"
      and h = "example_host daily_clock"]
    markAsPaid_first_match[where st = example_store and tid = "ascii ''T2''"
      and h = "example_host daily_clock" and pre = "[example_task (ascii ''T1'')]"
      and t = "example_task (ascii ''T2'')"
      and post = "[example_task (ascii ''T2''), example_task (ascii ''T3'')]"]
  by (simp add: sample_defs all_tasks_def today_def date_defs ascii_def)

subsection \<open>What the two operations leave alone\<close>

lemma markAsPaid_cases:
  "markAsPaid h tid st = st \<and> update_task tid g (bookings st) = None
   \<or> (\<exists>bs'. update_task tid (\<lambda>t. t\<lparr>paymentStatus := ascii ''Paid'',
                    actualPaymentDate := Some (today h (ticks st))\<rparr>) (bookings st) = Some bs'
          \<and> bookings (markAsPaid h tid st) = bs')"
  by (auto simp add: markAsPaid_def update_task_None split: option.splits)

lemma addInvoiceLink_cases:
  "bookings (addInvoiceLink link tid st) = bookings st
   \<or> (\<exists>l bs'. link = Some l \<and> l \<noteq> [] \<and> update_task tid (\<lambda>t. t\<lparr>invoiceLink := Some l\<rparr>) (bookings st) = Some bs'
          \<and> bookings (addInvoiceLink link tid st) = bs')"
  by (auto simp add: addInvoiceLink_def split: option.splits)

text \<open>
  C10. \<open>markAsPaid\<close> and \<open>addInvoiceLink\<close> keep every booking's own fields and the number of
  tasks of every booking. When no task has the identifier, the bookings are unchanged.
  Otherwise all tasks but the first one with the identifier are unchanged, and that task
  differs from what it was at most in \<open>paymentStatus\<close> and \<open>actualPaymentDate\<close> after
  \<open>markAsPaid\<close>, and at most in \<open>invoiceLink\<close> after \<open>addInvoiceLink\<close>: putting the old
  values of these fields back gives the old task, identifier, type, description, amount and
  due date included.
\<close>

theorem mark_and_invoice_frame:
  "map (\<lambda>b. b\<lparr>paymentTasks := []\<rparr>) (bookings (markAsPaid h tid st))
     = map (\<lambda>b. b\<lparr>paymentTasks := []\<rparr>) (bookings st)
   \<and> map (length \<circ> paymentTasks) (bookings (markAsPaid h tid st))
     = map (length \<circ> paymentTasks) (bookings st)
   \<and> map (\<lambda>b. b\<lparr>paymentTasks := []\<rparr>) (bookings (addInvoiceLink link tid st))
     = map (\<lambda>b. b\<lparr>paymentTasks := []\<rparr>) (bookings st)
   \<and> map (length \<circ> paymentTasks) (bookings (addInvoiceLink link tid st))
     = map (length \<circ> paymentTasks) (bookings st)
   \<and> ((\<forall>t\<in>set (all_tasks (bookings st)). taskId t \<noteq> tid) \<longrightarrow>
        bookings (markAsPaid h tid st) = bookings st
        \<and> bookings (addInvoiceLink link tid st) = bookings st)
   \<and> (all_tasks (bookings st) = pre @ t # post \<and> (\<forall>u\<in>set pre. taskId u \<noteq> tid) \<and> taskId t = tid \<longrightarrow>
        (\<exists>t'. all_tasks (bookings (markAsPaid h tid st)) = pre @ t' # post
              \<and> t'\<lparr>paymentStatus := paymentStatus t, actualPaymentDate := actualPaymentDate t\<rparr> = t)
        \<and> (\<exists>t'. all_tasks (bookings (addInvoiceLink link tid st)) = pre @ t' # post
              \<and> t'\<lparr>invoiceLink := invoiceLink t\<rparr> = t))"
proof (intro conjI impI)
  show "map (\<lambda>b. b\<lparr>paymentTasks := []\<rparr>) (bookings (markAsPaid h tid st))
     = map (\<lambda>b. b\<lparr>paymentTasks := []\<rparr>) (bookings st)"
    using markAsPaid_cases[of h tid st] update_task_frame by fastforce
  show "map (length \<circ> paymentTasks) (bookings (markAsPaid h tid st))
     = map (length \<circ> paymentTasks) (bookings st)"
    using markAsPaid_cases[of h tid st] update_task_frame by fastforce
  show "map (\<lambda>b. b\<lparr>paymentTasks := []\<rparr>) (bookings (addInvoiceLink link tid st))
     = map (\<lambda>b. b\<lparr>paymentTasks := []\<rparr>) (bookings st)"
    using addInvoiceLink_cases[of link tid st] update_task_frame by fastforce
  show "map (length \<circ> paymentTasks) (bookings (addInvoiceLink link tid st))
     = map (length \<circ> paymentTasks) (bookings st)"
    using addInvoiceLink_cases[of link tid st] update_task_frame by fastforce
next
  assume n: "\<forall>t\<in>set (all_tasks (bookings st)). taskId t \<noteq> tid"
  then have none: "update_task tid g (bookings st) = None" for g
    by (simp add: update_task_None)
  show "bookings (markAsPaid h tid st) = bookings st"
    by (simp add: markAsPaid_def none)
  show "bookings (addInvoiceLink link tid st) = bookings st"
    by (simp add: addInvoiceLink_def none split: option.splits)
next
  assume a: "all_tasks (bookings st) = pre @ t # post \<and> (\<forall>u\<in>set pre. taskId u \<noteq> tid) \<and> taskId t = tid"
  from a markAsPaid_hit[of st pre t post tid h]
  show "\<exists>t'. all_tasks (bookings (markAsPaid h tid st)) = pre @ t' # post
              \<and> t'\<lparr>paymentStatus := paymentStatus t, actualPaymentDate := actualPaymentDate t\<rparr> = t"
    by auto
  show "\<exists>t'. all_tasks (bookings (addInvoiceLink link tid st)) = pre @ t' # post
              \<and> t'\<lparr>invoiceLink := invoiceLink t\<rparr> = t"
  proof (cases "\<exists>l. link = Some l \<and> l \<noteq> []")
    case True
    then obtain l where l: "link = Some l" "l \<noteq> []" by blast
    from a update_task_hit[of "bookings st" pre t post tid "\<lambda>t. t\<lparr>invoiceLink := Some l\<rparr>"]
    obtain bs' where "update_task tid (\<lambda>t. t\<lparr>invoiceLink := Some l\<rparr>) (bookings st) = Some bs'"
      "all_tasks bs' = pre @ t\<lparr>invoiceLink := Some l\<rparr> # post"
      by auto
    with l show ?thesis
      by (auto simp add: addInvoiceLink_def)
  next
    case False
    then have "addInvoiceLink link tid st = st"
      by (cases link) (auto simp add: addInvoiceLink_def)
    with a show ?thesis
      by auto
  qed
qed

theorem mark_and_invoice_frame_witness:
  "bookings (markAsPaid (example_host daily_clock) (ascii ''T9'') example_store)
     = bookings example_store
   \<and> bookings (addInvoiceLink (Some (ascii ''inv/7.pdf'')) (ascii ''T9'') example_store)
     = bookings example_store
   \<and> all_tasks (bookings (markAsPaid (example_host daily_clock) (ascii ''T2'') example_store))
       = [example_task (ascii ''T1''),
          (example_task (ascii ''T2''))\<lparr>paymentStatus := ascii ''Paid'',
             actualPaymentDate := Some (ascii ''2025-11-10'')\<rparr>,
          example_task (ascii ''T2''), example_task (ascii ''T3'')]
   \<and> all_tasks (bookings (addInvoiceLink (Some (ascii ''inv/7.pdf'')) (ascii ''T2'') example_store))
       = [example_task (ascii ''T1''),
          (example_task (ascii ''T2''))\<lparr>invoiceLink := Some (ascii ''inv/7.pdf'')\<rparr>,
          example_task (ascii ''T2''), example_task (ascii ''T3'')]
   \<and> map (\<lambda>b. b\<lparr>paymentTasks := []\<rparr>)
         (bookings (addInvoiceLink (Some (ascii ''inv/7.pdf'')) (ascii ''T2'') example_store))
       = [example_booking (ascii ''Acme'') [], example_booking (ascii ''Bolt'') []]
   \<and> map (\<lambda>b. b\<lparr>paymentTasks := []\<rparr>)
         (bookings (markAsPaid (example_host daily_clock) (ascii ''T2'') example_store))
       = [example_booking (ascii ''Acme'') [], example_booking (ascii ''Bolt'') []]"
  using mark_and_invoice_frame[where st = example_store and tid = "ascii ''T9''"
      and h = "example_host daily_clock" and link = "Some (ascii ''inv/7.pdf'')"]
    mark_and_invoice_frame[where st = example_store and tid = "ascii ''T2''"
      and h = "example_host daily_clock" and link = "Some (ascii ''inv/7.pdf'')"
      and pre = "[example_task (ascii ''T1'')]" and t = "example_task (ascii ''T2'')"
      and post = "[example_task (ascii ''T2''), example_task (ascii ''T3'')]"]
  by (simp add: sample_defs all_tasks_def today_def date_defs ascii_def markAsPaid_def addInvoiceLink_def
      update_task_def)

section \<open>The booking synthesizer\<close>

lemmas generator_defs = generatePaymentBookings_def convertToBookingsFormat_def findOrderById_def
  findProductByName_def findSupplierByName_def add_cost_def trim_def is_space_def
  deposit_description_def final_description_def Let_def

subsection \<open>The loops\<close>












subsection \<open>One supplier, one booking\<close>



subsection \<open>Unknown orders and unknown services\<close>



subsection \<open>Identifiers\<close>

text \<open>
  C5 does not hold of the code. The identifier of a generated task is made of the clock's
  reading, the product's index in its basket and the task's index in the product's
  expansion; the indices start again in every basket. For the order \<open>O2\<close>, of one service of
  each of two suppliers, generated into the empty store with the looks at the clock within
  one millisecond, the store holds two bookings whose tasks have the same identifier; marking
  that identifier as paid then reaches the first of them only.
\<close>

theorem generated_task_ids_collide:
  "(case handleSmartGenerate (example_host still_clock) (ascii ''O2'') example_orders
           example_products example_suppliers \<lparr>bookings = [], ticks = 0\<rparr> of
      Inl e \<Rightarrow> []
    | Inr st \<Rightarrow>
        map (\<lambda>b. (supplierName b, map (\<lambda>t. (taskId t, paymentStatus t)) (paymentTasks b)))
          (bookings (markAsPaid (example_host still_clock) (ascii ''TASK-1762732800000-0-0'') st)))
   = [(ascii ''Acme'', [(ascii ''TASK-1762732800000-0-0'', ascii ''Paid'')]),
      (ascii ''Bolt'', [(ascii ''TASK-1762732800000-0-0'', ascii ''Pending'')])]"
  by (simp add: handleSmartGenerate_def markAsPaid_def update_task_def generator_defs
      expander_defs sample_defs string_defs show_nat.simps)

section \<open>The form\<close>

text \<open>What the guard of \<open>handleSubmit\<close> does reject: an empty supplier name, an amount that is
  missing or 0, and an empty due date. The store stays as it was.\<close>

lemma submit_form_rejects:
  assumes "nt_supplierName f = [] \<or> nt_amountDue f = None \<or> nt_amountDue f = Some 0
           \<or> nt_dueDate f = []"
  shows "submit_form h f st = (Some FillRequiredFields, st)"
  using assms by (auto simp add: submit_form_def handleSubmit_def split: option.splits)


end
